theory Spec2Isabelle
  imports Complex_Main
begin

section \<open>The metamodel as data\<close>

text \<open>
  The tree that \<^verbatim>\<open>metamodel.js\<close> works on is JSON that conforms to the schema
  \<^verbatim>\<open>metaModelCto\<close> (namespace \<^verbatim>\<open>concerto.metamodel\<close>). Every concept of the schema is a
  record or a datatype here; the \<^verbatim>\<open>$class\<close> tag of a JSON object is the constructor.
  A field the schema marks \<^verbatim>\<open>optional\<close> has an option type, \<open>None\<close> being the absent
  field (\<^verbatim>\<open>undefined\<close> when read). \<^verbatim>\<open>Double\<close> values are reals, \<^verbatim>\<open>Integer\<close> and
  \<^verbatim>\<open>Long\<close> values are integers; the resolution pass never reads them.
\<close>

record position =
  pos_line :: int
  pos_column :: int
  pos_offset :: int

record srcRange =
  rng_start :: position
  rng_end :: position
  rng_source :: "string option"

text \<open>
  The values that the field \<^verbatim>\<open>namespace\<close> of a \<^verbatim>\<open>TypeIdentifier\<close> can hold. In a tree of the
  schema it is a string. The resolution pass writes what a lookup in the name table
  returns, and that can be a member which the table inherits from \<^verbatim>\<open>Object.prototype\<close>:
  \<open>JInherited n\<close> is the inherited member named \<open>n\<close>, a function, or the prototype object
  itself for the name \<^verbatim>\<open>__proto__\<close>. \<open>JEmptyObject\<close> is the object \<^verbatim>\<open>{}\<close>, which is what a
  round trip through JSON text makes of the prototype object.
\<close>

datatype jsvalue = JString string | JInherited string | JEmptyObject

record typeIdentifier =
  ti_name :: string
  ti_namespace :: "jsvalue option"

text \<open>The first argument of each literal is the inherited, optional \<^verbatim>\<open>location\<close>.\<close>

datatype decoratorLiteral =
    DecoratorString "srcRange option" string
  | DecoratorNumber "srcRange option" real
  | DecoratorBoolean "srcRange option" bool
  | DecoratorTypeReference "srcRange option" typeIdentifier bool

record decorator =
  dec_name :: string
  dec_arguments :: "decoratorLiteral list option"
  dec_location :: "srcRange option"

datatype identified = Identified | IdentifiedBy string

record enumProperty =
  ep_name :: string
  ep_decorators :: "decorator list option"
  ep_location :: "srcRange option"

record stringRegexValidator =
  srv_pattern :: string
  srv_flags :: string

record doubleDomainValidator =
  ddv_lower :: "real option"
  ddv_upper :: "real option"

record integerDomainValidator =
  idv_lower :: "int option"
  idv_upper :: "int option"

record longDomainValidator =
  ldv_lower :: "int option"
  ldv_upper :: "int option"

text \<open>The fields of the abstract concept \<^verbatim>\<open>Property\<close>, shared by its eight variants.\<close>

record propertyBase =
  p_name :: string
  p_isArray :: bool
  p_isOptional :: bool
  p_decorators :: "decorator list option"
  p_location :: "srcRange option"

datatype property =
    RelationshipProperty propertyBase typeIdentifier
  | ObjectProperty propertyBase "string option" typeIdentifier
  | BooleanProperty propertyBase "bool option"
  | DateTimeProperty propertyBase
  | StringProperty propertyBase "string option" "stringRegexValidator option"
  | DoubleProperty propertyBase "real option" "doubleDomainValidator option"
  | IntegerProperty propertyBase "int option" "integerDomainValidator option"
  | LongProperty propertyBase "int option" "longDomainValidator option"

record enumDeclaration =
  ed_name :: string
  ed_decorators :: "decorator list option"
  ed_location :: "srcRange option"
  ed_properties :: "enumProperty list"

record conceptDeclaration =
  cd_name :: string
  cd_decorators :: "decorator list option"
  cd_location :: "srcRange option"
  cd_isAbstract :: bool
  cd_identified :: "identified option"
  cd_superType :: "typeIdentifier option"
  cd_properties :: "property list"

text \<open>
  \<^verbatim>\<open>AssetDeclaration\<close>, \<^verbatim>\<open>ParticipantDeclaration\<close>, \<^verbatim>\<open>TransactionDeclaration\<close> and
  \<^verbatim>\<open>EventDeclaration\<close> extend \<^verbatim>\<open>ConceptDeclaration\<close> without adding a field.
\<close>

datatype declarationNode =
    EnumDeclaration enumDeclaration
  | ConceptDeclaration conceptDeclaration
  | AssetDeclaration conceptDeclaration
  | ParticipantDeclaration conceptDeclaration
  | TransactionDeclaration conceptDeclaration
  | EventDeclaration conceptDeclaration

text \<open>An import carries \<^verbatim>\<open>namespace\<close> and the optional \<^verbatim>\<open>uri\<close>; \<^verbatim>\<open>ImportType\<close> adds \<^verbatim>\<open>name\<close>.\<close>

datatype importDecl =
    ImportAll string "string option"
  | ImportType string "string option" string

record model =
  m_namespace :: string
  m_sourceUri :: "string option"
  m_concertoVersion :: "string option"
  m_imports :: "importDecl list option"
  m_declarations :: "declarationNode list option"

text \<open>
  \<^verbatim>\<open>resolveTypeNames\<close> accepts any node of the tree and looks at its \<^verbatim>\<open>$class\<close>; \<open>node\<close>
  is the sum of the node kinds it can be handed.
\<close>

datatype node =
    NModel model
  | NDeclaration declarationNode
  | NEnumProperty enumProperty
  | NProperty property
  | NDecorator decorator
  | NDecoratorLiteral decoratorLiteral
  | NTypeIdentifier typeIdentifier
  | NImport importDecl
  | NModels "model list"

section \<open>Errors and in-place updates\<close>

text \<open>
  \<open>Error msg\<close> is \<^verbatim>\<open>throw new Error(msg)\<close>. \<open>TypeError\<close> is what the runtime raises when
  a property is read from, or a method called on, \<^verbatim>\<open>undefined\<close>.
\<close>

datatype error = Error string | TypeError

text \<open>
  The resolution pass updates the tree it is given in place and may throw half way. A
  procedure on an object is a function from the object to its state afterwards and the
  error thrown, if any: \<open>(s', None)\<close> is a normal return that leaves the object as \<open>s'\<close>,
  \<open>(s', Some e)\<close> is the exception \<open>e\<close>, thrown when the object had become \<open>s'\<close>.
  \<open>andThen\<close> is the sequencing of two statements.
\<close>

definition andThen :: "'s \<times> error option \<Rightarrow> ('s \<Rightarrow> 's \<times> error option) \<Rightarrow> 's \<times> error option" where
  "andThen sr f = (case sr of (s, Some e) \<Rightarrow> (s, Some e) | (s, None) \<Rightarrow> f s)"

text \<open>
  \<^verbatim>\<open>xs.forEach((x) => { f(x) })\<close>, where \<open>f\<close> updates the element in place: the elements
  are visited in order, and the first exception leaves the remaining ones untouched.
\<close>

primrec forEach :: "'a list \<Rightarrow> ('a \<Rightarrow> 'a \<times> error option) \<Rightarrow> 'a list \<times> error option" where
  "forEach [] f = ([], None)"
| "forEach (x # xs) f =
     (case f x of
        (x', Some e) \<Rightarrow> (x' # xs, Some e)
      | (x', None) \<Rightarrow> (case forEach xs f of (xs', r) \<Rightarrow> (x' # xs', r)))"

text \<open>\<^verbatim>\<open>if (o.field) { o.field.forEach(...) }\<close>: an array, even an empty one, is truthy.\<close>

definition forEachIfPresent ::
    "'a list option \<Rightarrow> ('a \<Rightarrow> 'a \<times> error option) \<Rightarrow> 'a list option \<times> error option" where
  "forEachIfPresent field f =
     (case field of
        None \<Rightarrow> (None, None)
      | Some xs \<Rightarrow> (case forEach xs f of (xs', r) \<Rightarrow> (Some xs', r)))"

section \<open>The name table\<close>

text \<open>
  The table is the plain object that the literal \<^verbatim>\<open>{ ... }\<close> of \<^verbatim>\<open>createNameTable\<close> makes,
  used as a dictionary from short names to namespaces. It has its own properties, which
  are the strings the code assigns, and behind them the members that every plain object
  inherits from \<^verbatim>\<open>Object.prototype\<close>. \<open>nameTable\<close> holds the own properties.
\<close>

type_synonym nameTable = "string \<rightharpoonup> string"

text \<open>
  The property names of \<^verbatim>\<open>Object.prototype\<close>, as ECMAScript defines them (the last five in
  its annex for web browsers, which Node.js implements). All are functions but
  \<^verbatim>\<open>__proto__\<close>, an accessor whose getter returns the prototype object.
\<close>

definition Object_prototype :: "string list" where
  "Object_prototype =
     [''constructor'', ''hasOwnProperty'', ''isPrototypeOf'', ''propertyIsEnumerable'',
      ''toLocaleString'', ''toString'', ''valueOf'',
      ''__defineGetter__'', ''__defineSetter__'', ''__lookupGetter__'', ''__lookupSetter__'',
      ''__proto__'']"

text \<open>
  \<^verbatim>\<open>table[name]\<close>: the own property if there is one, else the inherited member if there is
  one, else \<^verbatim>\<open>undefined\<close>, which is \<open>None\<close>.
\<close>

definition tableGet :: "nameTable \<Rightarrow> string \<Rightarrow> jsvalue option" where
  "tableGet table name =
     (case table name of
        Some ns \<Rightarrow> Some (JString ns)
      | None \<Rightarrow> if name \<in> set Object_prototype then Some (JInherited name) else None)"

text \<open>
  \<^verbatim>\<open>table[name] = ns\<close> with a string \<open>ns\<close>. The assignment writes the own property, also
  when the name is that of an inherited function. For \<^verbatim>\<open>__proto__\<close> on a table without an
  own property of that name it calls the inherited setter, which ignores a value that is
  not an object: nothing is written and nothing is thrown.
\<close>

definition tableSet :: "nameTable \<Rightarrow> string \<Rightarrow> string \<Rightarrow> nameTable" where
  "tableSet table name ns =
     (if name = ''__proto__'' \<and> table name = None then table else table(name \<mapsto> ns))"

text \<open>
  Modelled from the spec: \<^verbatim>\<open>ModelManager\<close> and \<^verbatim>\<open>ModelFile\<close> are required from
  \<^verbatim>\<open>../modelmanager\<close> and are not part of these sources. The namespace registry answers
  whether a namespace locally declares a name, and lists the names of all declarations
  of a namespace in order. \<open>getLocalType f n\<close> is the truth value of
  \<^verbatim>\<open>f.getLocalType(n)\<close>; \<open>getAllDeclarations f\<close> lists \<^verbatim>\<open>decl.getName()\<close> for the
  elements of \<^verbatim>\<open>f.getAllDeclarations()\<close>. Both are read-only queries.
\<close>

record modelFile =
  getLocalType :: "string \<Rightarrow> bool"
  getAllDeclarations :: "string list"

record modelManager =
  getModelFile :: "string \<Rightarrow> modelFile"

fun decl_name :: "declarationNode \<Rightarrow> string" where
  "decl_name (EnumDeclaration e) = ed_name e"
| "decl_name (ConceptDeclaration c) = cd_name c"
| "decl_name (AssetDeclaration c) = cd_name c"
| "decl_name (ParticipantDeclaration c) = cd_name c"
| "decl_name (TransactionDeclaration c) = cd_name c"
| "decl_name (EventDeclaration c) = cd_name c"

text \<open>The object literal that seeds the table, key for key.\<close>

definition builtinTable :: nameTable where
  "builtinTable =
     [''Concept'' \<mapsto> ''concerto'',
      ''Asset'' \<mapsto> ''concerto'',
      ''Participant'' \<mapsto> ''concerto'',
      ''Transaction '' \<mapsto> ''concerto'',
      ''Event'' \<mapsto> ''concerto'']"

text \<open>The body of the callback of \<^verbatim>\<open>imports.forEach\<close>: one import, applied to the table.\<close>

fun importNames :: "modelManager \<Rightarrow> importDecl \<Rightarrow> nameTable \<Rightarrow> error + nameTable" where
  "importNames modelManager (ImportType namespace uri name) table =
     (let modelFile = getModelFile modelManager namespace in
      if \<not> getLocalType modelFile name
      then Inl (Error (''Declaration '' @ name @ '' in namespace '' @ namespace @ '' not found''))
      else Inr (tableSet table name namespace))"
| "importNames modelManager (ImportAll namespace uri) table =
     (let modelFile = getModelFile modelManager namespace;
          decls = getAllDeclarations modelFile
      in Inr (fold (\<lambda>decl t. tableSet t decl namespace) decls table))"

text \<open>\<^verbatim>\<open>imports.forEach\<close> over a table that is local to the call: an exception ends the call.\<close>

primrec forEachImport :: "modelManager \<Rightarrow> importDecl list \<Rightarrow> nameTable \<Rightarrow> error + nameTable" where
  "forEachImport modelManager [] table = Inr table"
| "forEachImport modelManager (imp # imps) table =
     (case importNames modelManager imp table of
        Inl e \<Rightarrow> Inl e
      | Inr table' \<Rightarrow> forEachImport modelManager imps table')"

definition createNameTable :: "modelManager \<Rightarrow> model \<Rightarrow> error + nameTable" where
  "createNameTable modelManager metaModel =
     (case m_imports metaModel of
        None \<Rightarrow> Inl TypeError
      | Some imports \<Rightarrow>
          (case forEachImport modelManager imports builtinTable of
             Inl e \<Rightarrow> Inl e
           | Inr table \<Rightarrow>
               (case m_declarations metaModel of
                  None \<Rightarrow> Inr table
                | Some decls \<Rightarrow>
                    Inr (fold (\<lambda>decl t. tableSet t (decl_name decl) (m_namespace metaModel)) decls table))))"

text \<open>
  \<^verbatim>\<open>if (!table[name]) throw ...; return table[name]\<close>. The test is on the truth value of
  what the lookup returns: \<^verbatim>\<open>undefined\<close> and the empty string are falsy, any other string
  and every inherited member are truthy. What is returned is the value looked up, a
  string or not.
\<close>

definition resolveName :: "string \<Rightarrow> nameTable \<Rightarrow> error + jsvalue" where
  "resolveName name table =
     (case tableGet table name of
        None \<Rightarrow> Inl (Error (''Name '' @ name @ '' not found''))
      | Some (JString ns) \<Rightarrow>
          if ns = [] then Inl (Error (''Name '' @ name @ '' not found'')) else Inr (JString ns)
      | Some v \<Rightarrow> Inr v)"

section \<open>Resolution of type names\<close>

text \<open>
  \<^verbatim>\<open>const name = t.name; t.namespace = MetaModel.resolveName(name, table)\<close>, the two lines
  that three cases of \<^verbatim>\<open>resolveTypeNames\<close> apply to a \<^verbatim>\<open>TypeIdentifier\<close> \<open>t\<close>. When
  \<^verbatim>\<open>resolveName\<close> throws, nothing has been written.
\<close>

definition resolveTypeIdentifier :: "typeIdentifier \<Rightarrow> nameTable \<Rightarrow> typeIdentifier \<times> error option" where
  "resolveTypeIdentifier t table =
     (case resolveName (ti_name t) table of
        Inl e \<Rightarrow> (t, Some e)
      | Inr v \<Rightarrow> (t\<lparr>ti_namespace := Some v\<rparr>, None))"

text \<open>Case \<^verbatim>\<open>DecoratorTypeReference\<close>; the other literals match no case of the switch.\<close>

fun resolveTypeNames_DecoratorLiteral ::
    "decoratorLiteral \<Rightarrow> nameTable \<Rightarrow> decoratorLiteral \<times> error option" where
  "resolveTypeNames_DecoratorLiteral (DecoratorTypeReference loc t isArray) table =
     (case resolveTypeIdentifier t table of (t', r) \<Rightarrow> (DecoratorTypeReference loc t' isArray, r))"
| "resolveTypeNames_DecoratorLiteral (DecoratorString loc v) table = (DecoratorString loc v, None)"
| "resolveTypeNames_DecoratorLiteral (DecoratorNumber loc v) table = (DecoratorNumber loc v, None)"
| "resolveTypeNames_DecoratorLiteral (DecoratorBoolean loc v) table = (DecoratorBoolean loc v, None)"

text \<open>Case \<^verbatim>\<open>Decorator\<close>.\<close>

definition resolveTypeNames_Decorator :: "decorator \<Rightarrow> nameTable \<Rightarrow> decorator \<times> error option" where
  "resolveTypeNames_Decorator d table =
     (case forEachIfPresent (dec_arguments d) (\<lambda>argument. resolveTypeNames_DecoratorLiteral argument table) of
        (args', r) \<Rightarrow> (d\<lparr>dec_arguments := args'\<rparr>, r))"

text \<open>
  The block shared by the cases \<^verbatim>\<open>EnumProperty\<close>, \<^verbatim>\<open>ObjectProperty\<close> and
  \<^verbatim>\<open>RelationshipProperty\<close>. Its first argument is the value of \<^verbatim>\<open>metaModel.type\<close>,
  \<open>None\<close> on a node that has no such field: reading \<^verbatim>\<open>.name\<close> from \<^verbatim>\<open>undefined\<close> throws
  before anything is written. Otherwise the type is resolved, then the decorators are
  walked if present. The state is the pair of the two fields the block writes.
\<close>

definition resolveTypeAndDecorators ::
    "typeIdentifier option \<Rightarrow> decorator list option \<Rightarrow> nameTable
       \<Rightarrow> (typeIdentifier option \<times> decorator list option) \<times> error option" where
  "resolveTypeAndDecorators ty decorators table =
     (case ty of
        None \<Rightarrow> ((None, decorators), Some TypeError)
      | Some t \<Rightarrow>
          andThen
            (case resolveTypeIdentifier t table of (t', r) \<Rightarrow> ((Some t', decorators), r))
            (\<lambda>(ty', ds). case forEachIfPresent ds (\<lambda>decorator. resolveTypeNames_Decorator decorator table) of
                          (ds', r) \<Rightarrow> ((ty', ds'), r)))"

text \<open>
  The property kinds. \<^verbatim>\<open>ObjectProperty\<close> and \<^verbatim>\<open>RelationshipProperty\<close> have the field
  \<^verbatim>\<open>type\<close>, which the block leaves present. The six primitive kinds match no case of the
  switch and are returned as they are.
\<close>

fun resolveTypeNames_Property :: "property \<Rightarrow> nameTable \<Rightarrow> property \<times> error option" where
  "resolveTypeNames_Property (ObjectProperty b dv t) table =
     (case resolveTypeAndDecorators (Some t) (p_decorators b) table of
        ((ty', ds'), r) \<Rightarrow>
          (ObjectProperty (b\<lparr>p_decorators := ds'\<rparr>) dv (case ty' of Some t' \<Rightarrow> t' | None \<Rightarrow> t), r))"
| "resolveTypeNames_Property (RelationshipProperty b t) table =
     (case resolveTypeAndDecorators (Some t) (p_decorators b) table of
        ((ty', ds'), r) \<Rightarrow>
          (RelationshipProperty (b\<lparr>p_decorators := ds'\<rparr>) (case ty' of Some t' \<Rightarrow> t' | None \<Rightarrow> t), r))"
| "resolveTypeNames_Property (BooleanProperty b dv) table = (BooleanProperty b dv, None)"
| "resolveTypeNames_Property (DateTimeProperty b) table = (DateTimeProperty b, None)"
| "resolveTypeNames_Property (StringProperty b dv v) table = (StringProperty b dv v, None)"
| "resolveTypeNames_Property (DoubleProperty b dv v) table = (DoubleProperty b dv v, None)"
| "resolveTypeNames_Property (IntegerProperty b dv v) table = (IntegerProperty b dv v, None)"
| "resolveTypeNames_Property (LongProperty b dv v) table = (LongProperty b dv v, None)"

text \<open>
  The same block on a node of class \<^verbatim>\<open>EnumProperty\<close>, to which the schema gives the field
  \<^verbatim>\<open>decorators\<close> and no field \<^verbatim>\<open>type\<close>.
\<close>

definition resolveTypeNames_EnumProperty :: "enumProperty \<Rightarrow> nameTable \<Rightarrow> enumProperty \<times> error option" where
  "resolveTypeNames_EnumProperty p table =
     (case resolveTypeAndDecorators None (ep_decorators p) table of
        ((ty', ds'), r) \<Rightarrow> (p\<lparr>ep_decorators := ds'\<rparr>, r))"

text \<open>
  The block shared by the five class-like declarations: the super type if present, every
  property, then the decorators if present.
\<close>

definition resolveTypeNames_ConceptDeclaration ::
    "conceptDeclaration \<Rightarrow> nameTable \<Rightarrow> conceptDeclaration \<times> error option" where
  "resolveTypeNames_ConceptDeclaration c table =
     andThen (andThen
       (case cd_superType c of
          None \<Rightarrow> (c, None)
        | Some superType \<Rightarrow>
            (case resolveTypeIdentifier superType table of
               (superType', r) \<Rightarrow> (c\<lparr>cd_superType := Some superType'\<rparr>, r)))
       (\<lambda>c. case forEach (cd_properties c) (\<lambda>property. resolveTypeNames_Property property table) of
               (ps', r) \<Rightarrow> (c\<lparr>cd_properties := ps'\<rparr>, r)))
       (\<lambda>c. case forEachIfPresent (cd_decorators c) (\<lambda>decorator. resolveTypeNames_Decorator decorator table) of
               (ds', r) \<Rightarrow> (c\<lparr>cd_decorators := ds'\<rparr>, r))"

text \<open>Case \<^verbatim>\<open>EnumDeclaration\<close>: the decorators of the declaration if present, nothing else.\<close>

definition resolveTypeNames_EnumDeclaration ::
    "enumDeclaration \<Rightarrow> nameTable \<Rightarrow> enumDeclaration \<times> error option" where
  "resolveTypeNames_EnumDeclaration e table =
     (case forEachIfPresent (ed_decorators e) (\<lambda>decorator. resolveTypeNames_Decorator decorator table) of
        (ds', r) \<Rightarrow> (e\<lparr>ed_decorators := ds'\<rparr>, r))"

fun resolveTypeNames_Declaration :: "declarationNode \<Rightarrow> nameTable \<Rightarrow> declarationNode \<times> error option" where
  "resolveTypeNames_Declaration (AssetDeclaration c) table =
     (case resolveTypeNames_ConceptDeclaration c table of (c', r) \<Rightarrow> (AssetDeclaration c', r))"
| "resolveTypeNames_Declaration (ConceptDeclaration c) table =
     (case resolveTypeNames_ConceptDeclaration c table of (c', r) \<Rightarrow> (ConceptDeclaration c', r))"
| "resolveTypeNames_Declaration (EventDeclaration c) table =
     (case resolveTypeNames_ConceptDeclaration c table of (c', r) \<Rightarrow> (EventDeclaration c', r))"
| "resolveTypeNames_Declaration (TransactionDeclaration c) table =
     (case resolveTypeNames_ConceptDeclaration c table of (c', r) \<Rightarrow> (TransactionDeclaration c', r))"
| "resolveTypeNames_Declaration (ParticipantDeclaration c) table =
     (case resolveTypeNames_ConceptDeclaration c table of (c', r) \<Rightarrow> (ParticipantDeclaration c', r))"
| "resolveTypeNames_Declaration (EnumDeclaration e) table =
     (case resolveTypeNames_EnumDeclaration e table of (e', r) \<Rightarrow> (EnumDeclaration e', r))"

text \<open>Case \<^verbatim>\<open>Model\<close>: every declaration, if the field is present.\<close>

definition resolveTypeNames_Model :: "model \<Rightarrow> nameTable \<Rightarrow> model \<times> error option" where
  "resolveTypeNames_Model m table =
     (case forEachIfPresent (m_declarations m) (\<lambda>decl. resolveTypeNames_Declaration decl table) of
        (ds', r) \<Rightarrow> (m\<lparr>m_declarations := ds'\<rparr>, r))"

text \<open>
  The switch on \<^verbatim>\<open>metaModel.$class\<close>. A class without a case (\<^verbatim>\<open>TypeIdentifier\<close>, the
  imports, \<^verbatim>\<open>Models\<close>) falls through to \<^verbatim>\<open>return metaModel\<close>.
\<close>

fun resolveTypeNames :: "node \<Rightarrow> nameTable \<Rightarrow> node \<times> error option" where
  "resolveTypeNames (NModel m) table =
     (case resolveTypeNames_Model m table of (m', r) \<Rightarrow> (NModel m', r))"
| "resolveTypeNames (NDeclaration d) table =
     (case resolveTypeNames_Declaration d table of (d', r) \<Rightarrow> (NDeclaration d', r))"
| "resolveTypeNames (NEnumProperty p) table =
     (case resolveTypeNames_EnumProperty p table of (p', r) \<Rightarrow> (NEnumProperty p', r))"
| "resolveTypeNames (NProperty p) table =
     (case resolveTypeNames_Property p table of (p', r) \<Rightarrow> (NProperty p', r))"
| "resolveTypeNames (NDecorator d) table =
     (case resolveTypeNames_Decorator d table of (d', r) \<Rightarrow> (NDecorator d', r))"
| "resolveTypeNames (NDecoratorLiteral a) table =
     (case resolveTypeNames_DecoratorLiteral a table of (a', r) \<Rightarrow> (NDecoratorLiteral a', r))"
| "resolveTypeNames (NTypeIdentifier t) table = (NTypeIdentifier t, None)"
| "resolveTypeNames (NImport i) table = (NImport i, None)"
| "resolveTypeNames (NModels ms) table = (NModels ms, None)"

section \<open>The nodes a walk visits\<close>

text \<open>
  \<open>visits n\<close> lists the nodes on which \<^verbatim>\<open>resolveTypeNames\<close> is invoked during the call
  on \<open>n\<close>, the node \<open>n\<close> first, in the order of the calls when no exception cuts the walk
  short: one recursive call for each call in the source. The case of \<^verbatim>\<open>EnumProperty\<close>
  throws before its call on the decorators.
\<close>

definition visits_Decorator :: "decorator \<Rightarrow> node list" where
  "visits_Decorator d =
     NDecorator d # (case dec_arguments d of None \<Rightarrow> [] | Some args \<Rightarrow> map NDecoratorLiteral args)"

definition visits_decorators :: "decorator list option \<Rightarrow> node list" where
  "visits_decorators decorators =
     (case decorators of None \<Rightarrow> [] | Some ds \<Rightarrow> concat (map visits_Decorator ds))"

fun visits_Property :: "property \<Rightarrow> node list" where
  "visits_Property (ObjectProperty b dv t) =
     NProperty (ObjectProperty b dv t) # visits_decorators (p_decorators b)"
| "visits_Property (RelationshipProperty b t) =
     NProperty (RelationshipProperty b t) # visits_decorators (p_decorators b)"
| "visits_Property (BooleanProperty b dv) = [NProperty (BooleanProperty b dv)]"
| "visits_Property (DateTimeProperty b) = [NProperty (DateTimeProperty b)]"
| "visits_Property (StringProperty b dv v) = [NProperty (StringProperty b dv v)]"
| "visits_Property (DoubleProperty b dv v) = [NProperty (DoubleProperty b dv v)]"
| "visits_Property (IntegerProperty b dv v) = [NProperty (IntegerProperty b dv v)]"
| "visits_Property (LongProperty b dv v) = [NProperty (LongProperty b dv v)]"

definition visits_ConceptDeclaration :: "conceptDeclaration \<Rightarrow> node list" where
  "visits_ConceptDeclaration c =
     concat (map visits_Property (cd_properties c)) @ visits_decorators (cd_decorators c)"

fun visits_Declaration :: "declarationNode \<Rightarrow> node list" where
  "visits_Declaration (AssetDeclaration c) = NDeclaration (AssetDeclaration c) # visits_ConceptDeclaration c"
| "visits_Declaration (ConceptDeclaration c) = NDeclaration (ConceptDeclaration c) # visits_ConceptDeclaration c"
| "visits_Declaration (EventDeclaration c) = NDeclaration (EventDeclaration c) # visits_ConceptDeclaration c"
| "visits_Declaration (TransactionDeclaration c) = NDeclaration (TransactionDeclaration c) # visits_ConceptDeclaration c"
| "visits_Declaration (ParticipantDeclaration c) = NDeclaration (ParticipantDeclaration c) # visits_ConceptDeclaration c"
| "visits_Declaration (EnumDeclaration e) = NDeclaration (EnumDeclaration e) # visits_decorators (ed_decorators e)"

fun visits :: "node \<Rightarrow> node list" where
  "visits (NModel m) =
     NModel m # (case m_declarations m of None \<Rightarrow> [] | Some ds \<Rightarrow> concat (map visits_Declaration ds))"
| "visits (NDeclaration d) = visits_Declaration d"
| "visits (NEnumProperty p) = [NEnumProperty p]"
| "visits (NProperty p) = visits_Property p"
| "visits (NDecorator d) = visits_Decorator d"
| "visits (NDecoratorLiteral a) = [NDecoratorLiteral a]"
| "visits (NTypeIdentifier t) = [NTypeIdentifier t]"
| "visits (NImport i) = [NImport i]"
| "visits (NModels ms) = [NModels ms]"

section \<open>The orchestrator, over a store of objects\<close>

text \<open>
  \<^verbatim>\<open>resolveMetaModel\<close> is handed a reference to the caller's object, and whether it writes
  to that object depends on which references alias it. The store is the list of the model
  objects alive; a reference is an index into it; \<open>alloc\<close> makes a new object. An object of
  the store is a whole tree: the copies made below share no part with their source.
\<close>

type_synonym store = "model list"
type_synonym ref = nat

definition alloc :: "store \<Rightarrow> model \<Rightarrow> store \<times> ref" where
  "alloc h v = (h @ [v], length h)"

text \<open>
  Modelled from the spec: \<^verbatim>\<open>Factory\<close> and \<^verbatim>\<open>Serializer\<close> are required from other files
  and are not part of these sources. The structural validator
  \<^verbatim>\<open>serializer.toJSON(serializer.fromJSON(input))\<close> is the parameter \<open>serializer\<close>: it
  fails with a structural error or returns a canonical tree equivalent to its input, as a
  new object.
\<close>

definition validateMetaModel :: "(model \<Rightarrow> error + model) \<Rightarrow> store \<Rightarrow> ref \<Rightarrow> store \<times> (error + ref)" where
  "validateMetaModel serializer h input =
     (case serializer (h ! input) of
        Inl e \<Rightarrow> (h, Inl e)
      | Inr object \<Rightarrow> (case alloc h object of (h', r) \<Rightarrow> (h', Inr r)))"

text \<open>
  \<^verbatim>\<open>JSON.parse(JSON.stringify(mm))\<close> builds a new tree from the text of \<open>mm\<close>. Strings,
  numbers, truth values, arrays and objects are rebuilt as they are, and an absent field
  stays absent. A field whose value is a function is left out of the text, and the
  prototype object has no property to print, so it comes back as \<^verbatim>\<open>{}\<close>. Only the field
  \<^verbatim>\<open>namespace\<close> of a \<^verbatim>\<open>TypeIdentifier\<close> can hold such values.
\<close>

definition jsonRoundTrip_namespace :: "jsvalue option \<Rightarrow> jsvalue option" where
  "jsonRoundTrip_namespace v =
     (case v of
        None \<Rightarrow> None
      | Some (JString ns) \<Rightarrow> Some (JString ns)
      | Some (JInherited n) \<Rightarrow> if n = ''__proto__'' then Some JEmptyObject else None
      | Some JEmptyObject \<Rightarrow> Some JEmptyObject)"

definition jsonRoundTrip_TypeIdentifier :: "typeIdentifier \<Rightarrow> typeIdentifier" where
  "jsonRoundTrip_TypeIdentifier t = t\<lparr>ti_namespace := jsonRoundTrip_namespace (ti_namespace t)\<rparr>"

fun jsonRoundTrip_DecoratorLiteral :: "decoratorLiteral \<Rightarrow> decoratorLiteral" where
  "jsonRoundTrip_DecoratorLiteral (DecoratorTypeReference loc t isArray) =
     DecoratorTypeReference loc (jsonRoundTrip_TypeIdentifier t) isArray"
| "jsonRoundTrip_DecoratorLiteral (DecoratorString loc v) = DecoratorString loc v"
| "jsonRoundTrip_DecoratorLiteral (DecoratorNumber loc v) = DecoratorNumber loc v"
| "jsonRoundTrip_DecoratorLiteral (DecoratorBoolean loc v) = DecoratorBoolean loc v"

definition jsonRoundTrip_Decorator :: "decorator \<Rightarrow> decorator" where
  "jsonRoundTrip_Decorator d =
     d\<lparr>dec_arguments := map_option (map jsonRoundTrip_DecoratorLiteral) (dec_arguments d)\<rparr>"

definition jsonRoundTrip_decorators :: "decorator list option \<Rightarrow> decorator list option" where
  "jsonRoundTrip_decorators ds = map_option (map jsonRoundTrip_Decorator) ds"

definition jsonRoundTrip_EnumProperty :: "enumProperty \<Rightarrow> enumProperty" where
  "jsonRoundTrip_EnumProperty p = p\<lparr>ep_decorators := jsonRoundTrip_decorators (ep_decorators p)\<rparr>"

definition jsonRoundTrip_propertyBase :: "propertyBase \<Rightarrow> propertyBase" where
  "jsonRoundTrip_propertyBase b = b\<lparr>p_decorators := jsonRoundTrip_decorators (p_decorators b)\<rparr>"

fun jsonRoundTrip_Property :: "property \<Rightarrow> property" where
  "jsonRoundTrip_Property (RelationshipProperty b t) =
     RelationshipProperty (jsonRoundTrip_propertyBase b) (jsonRoundTrip_TypeIdentifier t)"
| "jsonRoundTrip_Property (ObjectProperty b dv t) =
     ObjectProperty (jsonRoundTrip_propertyBase b) dv (jsonRoundTrip_TypeIdentifier t)"
| "jsonRoundTrip_Property (BooleanProperty b dv) = BooleanProperty (jsonRoundTrip_propertyBase b) dv"
| "jsonRoundTrip_Property (DateTimeProperty b) = DateTimeProperty (jsonRoundTrip_propertyBase b)"
| "jsonRoundTrip_Property (StringProperty b dv v) = StringProperty (jsonRoundTrip_propertyBase b) dv v"
| "jsonRoundTrip_Property (DoubleProperty b dv v) = DoubleProperty (jsonRoundTrip_propertyBase b) dv v"
| "jsonRoundTrip_Property (IntegerProperty b dv v) = IntegerProperty (jsonRoundTrip_propertyBase b) dv v"
| "jsonRoundTrip_Property (LongProperty b dv v) = LongProperty (jsonRoundTrip_propertyBase b) dv v"

definition jsonRoundTrip_EnumDeclaration :: "enumDeclaration \<Rightarrow> enumDeclaration" where
  "jsonRoundTrip_EnumDeclaration e =
     e\<lparr>ed_decorators := jsonRoundTrip_decorators (ed_decorators e),
       ed_properties := map jsonRoundTrip_EnumProperty (ed_properties e)\<rparr>"

definition jsonRoundTrip_ConceptDeclaration :: "conceptDeclaration \<Rightarrow> conceptDeclaration" where
  "jsonRoundTrip_ConceptDeclaration c =
     c\<lparr>cd_decorators := jsonRoundTrip_decorators (cd_decorators c),
       cd_superType := map_option jsonRoundTrip_TypeIdentifier (cd_superType c),
       cd_properties := map jsonRoundTrip_Property (cd_properties c)\<rparr>"

fun jsonRoundTrip_Declaration :: "declarationNode \<Rightarrow> declarationNode" where
  "jsonRoundTrip_Declaration (EnumDeclaration e) = EnumDeclaration (jsonRoundTrip_EnumDeclaration e)"
| "jsonRoundTrip_Declaration (ConceptDeclaration c) = ConceptDeclaration (jsonRoundTrip_ConceptDeclaration c)"
| "jsonRoundTrip_Declaration (AssetDeclaration c) = AssetDeclaration (jsonRoundTrip_ConceptDeclaration c)"
| "jsonRoundTrip_Declaration (ParticipantDeclaration c) = ParticipantDeclaration (jsonRoundTrip_ConceptDeclaration c)"
| "jsonRoundTrip_Declaration (TransactionDeclaration c) = TransactionDeclaration (jsonRoundTrip_ConceptDeclaration c)"
| "jsonRoundTrip_Declaration (EventDeclaration c) = EventDeclaration (jsonRoundTrip_ConceptDeclaration c)"

definition jsonRoundTrip :: "model \<Rightarrow> model" where
  "jsonRoundTrip m =
     m\<lparr>m_declarations := map_option (map jsonRoundTrip_Declaration) (m_declarations m)\<rparr>"

text \<open>
  The copy is a new object of the store. The call
  \<^verbatim>\<open>MetaModel.resolveTypeNames(result, nameTable)\<close> is on an object of class \<^verbatim>\<open>Model\<close>, so
  the switch takes that case; it writes to the object \<open>result\<close> refers to.
\<close>

definition resolveMetaModel ::
    "(model \<Rightarrow> error + model) \<Rightarrow> modelManager \<Rightarrow> store \<Rightarrow> ref \<Rightarrow> bool \<Rightarrow> store \<times> (error + ref)" where
  "resolveMetaModel serializer modelManager h metaModel validate =
     (case (if validate then validateMetaModel serializer h metaModel else (h, Inr metaModel)) of
        (h1, Inl e) \<Rightarrow> (h1, Inl e)
      | (h1, Inr mm) \<Rightarrow>
          (case alloc h1 (jsonRoundTrip (h1 ! mm)) of
             (h2, result) \<Rightarrow>
               (case createNameTable modelManager (h2 ! mm) of
                  Inl e \<Rightarrow> (h2, Inl e)
                | Inr nameTable \<Rightarrow>
                    (case resolveTypeNames_Model (h2 ! result) nameTable of
                       (m', r) \<Rightarrow>
                         (h2[result := m'], case r of Some e \<Rightarrow> Inl e | None \<Rightarrow> Inr result)))))"

section \<open>Notions used to state the properties\<close>

text \<open>\<^verbatim>\<open>imp.namespace\<close>.\<close>

fun import_namespace :: "importDecl \<Rightarrow> string" where
  "import_namespace (ImportAll namespace uri) = namespace"
| "import_namespace (ImportType namespace uri name) = namespace"

text \<open>The keys that the callback of \<^verbatim>\<open>imports.forEach\<close> assigns for one import.\<close>

fun importedNames :: "modelManager \<Rightarrow> importDecl \<Rightarrow> string list" where
  "importedNames modelManager (ImportType namespace uri name) = [name]"
| "importedNames modelManager (ImportAll namespace uri) =
     getAllDeclarations (getModelFile modelManager namespace)"

text \<open>The test the callback makes before it writes: only an \<^verbatim>\<open>ImportType\<close> can fail it.\<close>

fun importFound :: "modelManager \<Rightarrow> importDecl \<Rightarrow> bool" where
  "importFound modelManager (ImportType namespace uri name) =
     getLocalType (getModelFile modelManager namespace) name"
| "importFound modelManager (ImportAll namespace uri) = True"

text \<open>The names of the declarations of the model itself, none when the field is absent.\<close>

definition localNames :: "model \<Rightarrow> string list" where
  "localNames metaModel =
     (case m_declarations metaModel of None \<Rightarrow> [] | Some decls \<Rightarrow> map decl_name decls)"

section \<open>The name table: seeding, imports, local declarations\<close>

lemma builtinTable_apply:
  "builtinTable x =
     (if x = ''Event'' \<or> x = ''Transaction '' \<or> x = ''Participant'' \<or> x = ''Asset'' \<or> x = ''Concept''
      then Some ''concerto'' else None)"
  by (simp add: builtinTable_def)

lemma tableSet_apply:
  "x \<noteq> ''__proto__'' \<Longrightarrow> tableSet table name ns x = (if x = name then Some ns else table x)"
  by (simp add: tableSet_def)

lemma fold_tableSet_apply:
  "x \<noteq> ''__proto__'' \<Longrightarrow>
   fold (\<lambda>d t. tableSet t (f d) ns) ds table x = (if x \<in> f ` set ds then Some ns else table x)"
  by (induction ds arbitrary: table) (auto simp: tableSet_apply)

lemma importNames_Inr_iff:
  "(\<exists>t. importNames mm imp table = Inr t) \<longleftrightarrow> importFound mm imp"
  by (cases imp) (simp_all add: Let_def)

lemma importNames_apply:
  assumes "importNames mm imp table = Inr t" and "x \<noteq> ''__proto__''"
  shows "t x = (if x \<in> set (importedNames mm imp) then Some (import_namespace imp) else table x)"
proof (cases imp)
  case (ImportAll ns uri)
  with assms(1) have "t = fold (\<lambda>d t. tableSet t d ns) (getAllDeclarations (getModelFile mm ns)) table"
    by (simp add: Let_def)
  with fold_tableSet_apply [OF assms(2), of "\<lambda>d. d" ns] show ?thesis
    unfolding ImportAll by simp
next
  case (ImportType ns uri name)
  with assms(1) have "t = tableSet table name ns"
    by (simp add: Let_def split: if_splits)
  with tableSet_apply [OF assms(2)] show ?thesis unfolding ImportType by simp
qed

lemma forEachImport_Inr_iff:
  "(\<exists>t. forEachImport mm imps table = Inr t) \<longleftrightarrow> (\<forall>i \<in> set imps. importFound mm i)"
proof (induction imps arbitrary: table)
  case Nil
  show ?case by simp
next
  case (Cons imp imps)
  show ?case
  proof (cases "importNames mm imp table")
    case (Inl e)
    with importNames_Inr_iff [of mm imp table] show ?thesis by simp
  next
    case (Inr t)
    with importNames_Inr_iff [of mm imp table] Cons.IH [of t] show ?thesis by simp
  qed
qed

lemma forEachImport_others:
  assumes "forEachImport mm imps table = Inr t"
    and "\<forall>i \<in> set imps. x \<notin> set (importedNames mm i)" and "x \<noteq> ''__proto__''"
  shows "t x = table x"
  using assms(1,2)
proof (induction imps arbitrary: table)
  case Nil
  then show ?case by simp
next
  case (Cons imp imps)
  from Cons.prems(1) obtain t1 where 1: "importNames mm imp table = Inr t1"
    and 2: "forEachImport mm imps t1 = Inr t"
    by (auto split: sum.splits)
  from importNames_apply [OF 1 assms(3)] Cons.prems(2) have "t1 x = table x" by simp
  with Cons.IH [OF 2] Cons.prems(2) show ?case by simp
qed

lemma forEachImport_append:
  "forEachImport mm (xs @ ys) table =
     (case forEachImport mm xs table of Inl e \<Rightarrow> Inl e | Inr t \<Rightarrow> forEachImport mm ys t)"
  by (induction xs arbitrary: table) (auto split: sum.splits)

lemma forEachImport_last_write:
  assumes "forEachImport mm (pre @ imp # post) table = Inr t"
    and "x \<in> set (importedNames mm imp)"
    and "\<forall>i \<in> set post. x \<notin> set (importedNames mm i)"
    and "x \<noteq> ''__proto__''"
  shows "t x = Some (import_namespace imp)"
proof -
  from assms(1) obtain t1 where t1: "forEachImport mm pre table = Inr t1"
    and r: "forEachImport mm (imp # post) t1 = Inr t"
    by (auto simp: forEachImport_append split: sum.splits)
  from r obtain t2 where t2: "importNames mm imp t1 = Inr t2" and p: "forEachImport mm post t2 = Inr t"
    by (auto split: sum.splits)
  from importNames_apply [OF t2 assms(4)] assms(2) have "t2 x = Some (import_namespace imp)"
    by simp
  with forEachImport_others [OF p assms(3) assms(4)] show ?thesis by simp
qed

lemma createNameTable_Some:
  assumes "m_imports m = Some imps"
  shows "createNameTable mm m =
     (case forEachImport mm imps builtinTable of
        Inl e \<Rightarrow> Inl e
      | Inr t \<Rightarrow> Inr (fold (\<lambda>d t. tableSet t d (m_namespace m)) (localNames m) t))"
proof -
  have "fold (\<lambda>decl t. tableSet t (decl_name decl) ns) decls t
      = fold (\<lambda>d t. tableSet t d ns) (map decl_name decls) t" for decls ns and t :: nameTable
    by (simp add: fold_map comp_def)
  with assms show ?thesis
    by (simp add: createNameTable_def localNames_def split: sum.splits option.splits)
qed

text \<open>
  What the table holds for every name other than \<^verbatim>\<open>__proto__\<close>: a local declaration is bound
  to the namespace of the model, and a name that no local declaration has is bound to the
  namespace of the last import that writes it. The call returns a table exactly when the
  import list is present and every \<^verbatim>\<open>ImportType\<close> is found.
\<close>

lemma createNameTable_write_order:
  assumes "createNameTable modelManager m = Inr table" and "x \<noteq> ''__proto__''"
  shows "x \<in> set (localNames m) \<Longrightarrow> table x = Some (m_namespace m)"
    and "m_imports m = Some (pre @ imp # post) \<Longrightarrow> x \<in> set (importedNames modelManager imp) \<Longrightarrow>
         \<forall>i \<in> set post. x \<notin> set (importedNames modelManager i) \<Longrightarrow> x \<notin> set (localNames m) \<Longrightarrow>
         table x = Some (import_namespace imp)"
proof -
  from assms(1) obtain imps where i: "m_imports m = Some imps"
    by (auto simp: createNameTable_def split: option.splits)
  from assms(1) obtain t where t: "forEachImport modelManager imps builtinTable = Inr t"
    and e: "table = fold (\<lambda>d t. tableSet t d (m_namespace m)) (localNames m) t"
    by (auto simp: createNameTable_Some [OF i] split: sum.splits)
  from fold_tableSet_apply [OF assms(2), of "\<lambda>d. d" "m_namespace m" "localNames m" t] e
  have tx: "table x = (if x \<in> set (localNames m) then Some (m_namespace m) else t x)" by simp
  then show "x \<in> set (localNames m) \<Longrightarrow> table x = Some (m_namespace m)" by simp
  assume "m_imports m = Some (pre @ imp # post)" and x: "x \<in> set (importedNames modelManager imp)"
    and p: "\<forall>i \<in> set post. x \<notin> set (importedNames modelManager i)" and l: "x \<notin> set (localNames m)"
  with i t have "forEachImport modelManager (pre @ imp # post) builtinTable = Inr t" by simp
  from forEachImport_last_write [OF this x p assms(2)] tx l
  show "table x = Some (import_namespace imp)" by simp
qed

lemma createNameTable_Inr_iff:
  "(\<exists>t. createNameTable mm m = Inr t) \<longleftrightarrow>
   (\<exists>imps. m_imports m = Some imps \<and> (\<forall>i \<in> set imps. importFound mm i))"
proof (cases "m_imports m")
  case None
  then show ?thesis by (simp add: createNameTable_def)
next
  case (Some imps)
  have "(\<exists>t. createNameTable mm m = Inr t) \<longleftrightarrow> (\<exists>t. forEachImport mm imps builtinTable = Inr t)"
    by (auto simp: createNameTable_Some [OF Some] split: sum.splits)
  then show ?thesis using Some by (simp add: forEachImport_Inr_iff)
qed

text \<open>
  C1. The claim: the table is seeded with \<^verbatim>\<open>Concept\<close>, \<^verbatim>\<open>Asset\<close>, \<^verbatim>\<open>Participant\<close>,
  \<^verbatim>\<open>Transaction\<close> and \<^verbatim>\<open>Event\<close>, so that with no imports and no local declaration of the
  same name each of the five resolves to the built-in namespace. The code, on a model with
  an empty import list and no declarations: four of the five names resolve to
  \<^verbatim>\<open>concerto\<close>, and \<^verbatim>\<open>Transaction\<close> is not found, because the key the literal seeds is
  \<^verbatim>\<open>Transaction\<close> followed by a space.
\<close>

theorem createNameTable_builtin_Transaction:
  "(case createNameTable modelManager (m\<lparr>m_imports := Some [], m_declarations := None\<rparr>) of
      Inl e \<Rightarrow> [Inl e]
    | Inr table \<Rightarrow>
        map (\<lambda>name. resolveName name table)
          [''Concept'', ''Asset'', ''Participant'', ''Transaction'', ''Event'', ''Transaction ''])
   = [Inr (JString ''concerto''), Inr (JString ''concerto''), Inr (JString ''concerto''),
      Inl (Error ''Name Transaction not found''), Inr (JString ''concerto''),
      Inr (JString ''concerto'')]"
  by (simp add: createNameTable_def resolveName_def tableGet_def builtinTable_apply
        Object_prototype_def)

text \<open>
  C3. The claim: in the table that \<^verbatim>\<open>createNameTable\<close> returns every local declaration is
  bound to the namespace of the model, and a later import overwrites an earlier one. The
  code, on the model \<^verbatim>\<open>org.acme\<close> that imports all of \<^verbatim>\<open>NS1\<close> and declares \<^verbatim>\<open>__proto__\<close> and
  \<^verbatim>\<open>Bar\<close>, with a registry in which \<^verbatim>\<open>NS1\<close> declares the same two names: the call returns a
  table in which \<^verbatim>\<open>Bar\<close> is bound to \<^verbatim>\<open>org.acme\<close>, and \<^verbatim>\<open>__proto__\<close> is bound neither to
  \<^verbatim>\<open>org.acme\<close> nor to \<^verbatim>\<open>NS1\<close>: the table has no entry of that name, a lookup returns the
  prototype object, and \<^verbatim>\<open>resolveName\<close> returns it as the namespace. The name is one that
  the schema accepts for a declaration.
\<close>

theorem createNameTable_proto_declaration:
  "(case createNameTable
      \<lparr>getModelFile = (\<lambda>ns. \<lparr>getLocalType = (\<lambda>n. False), getAllDeclarations = [''__proto__'', ''Bar'']\<rparr>)\<rparr>
      \<lparr>m_namespace = ''org.acme'', m_sourceUri = None, m_concertoVersion = None,
       m_imports = Some [ImportAll ''NS1'' None],
       m_declarations = Some
         [EnumDeclaration \<lparr>ed_name = ''__proto__'', ed_decorators = None, ed_location = None, ed_properties = []\<rparr>,
          EnumDeclaration \<lparr>ed_name = ''Bar'', ed_decorators = None, ed_location = None, ed_properties = []\<rparr>]\<rparr> of
      Inl e \<Rightarrow> None
    | Inr table \<Rightarrow>
        Some (table ''Bar'', table ''__proto__'', tableGet table ''__proto__'', resolveName ''__proto__'' table))
   = Some (Some ''org.acme'', None, Some (JInherited ''__proto__''), Inr (JInherited ''__proto__''))"
  by (simp add: createNameTable_def Let_def tableSet_def builtinTable_apply resolveName_def
        tableGet_def Object_prototype_def)

text \<open>
  C6. The claim: an \<^verbatim>\<open>ImportType\<close> that is not found fails with an error that carries the
  name and the namespace, and one that is found adds the binding of the name to the
  namespace. The code, with a registry whose namespaces declare \<^verbatim>\<open>__proto__\<close> and \<^verbatim>\<open>Foo\<close>:
  the import of \<^verbatim>\<open>Bar\<close> fails with that error and the import of \<^verbatim>\<open>Foo\<close> adds its binding,
  but the import of \<^verbatim>\<open>__proto__\<close>, which is found, adds none: the table it leaves has no
  entry of that name and a lookup returns the prototype object.
\<close>

theorem createNameTable_ImportType_proto:
  "map (\<lambda>name.
       case createNameTable
          \<lparr>getModelFile = (\<lambda>ns. \<lparr>getLocalType = (\<lambda>n. n = ''__proto__'' \<or> n = ''Foo''),
                                 getAllDeclarations = [''__proto__'', ''Foo'']\<rparr>)\<rparr>
          \<lparr>m_namespace = ''org.acme'', m_sourceUri = None, m_concertoVersion = None,
           m_imports = Some [ImportType ''NS'' None name], m_declarations = None\<rparr> of
         Inl e \<Rightarrow> Inl e
       | Inr table \<Rightarrow> Inr (table name, tableGet table name))
     [''Bar'', ''Foo'', ''__proto__'']
   = [Inl (Error ''Declaration Bar in namespace NS not found''),
      Inr (Some ''NS'', Some (JString ''NS'')),
      Inr (None, Some (JInherited ''__proto__''))]"
  by (simp add: createNameTable_def Let_def tableSet_def builtinTable_apply tableGet_def
        Object_prototype_def)

text \<open>
  C9. \<^verbatim>\<open>createNameTable\<close> calls \<^verbatim>\<open>forEach\<close> on \<^verbatim>\<open>metaModel.imports\<close> without a test: on a
  model whose optional field \<^verbatim>\<open>imports\<close> is absent the call fails with the runtime's
  \<^verbatim>\<open>TypeError\<close>, whatever the other fields are. It is not the behaviour on an empty
  import list, for which the call returns the seeded table when the field
  \<^verbatim>\<open>declarations\<close>, which is tested, is absent.
\<close>

theorem createNameTable_imports_absent:
  "createNameTable modelManager (m\<lparr>m_imports := None\<rparr>) = Inl TypeError \<and>
   createNameTable modelManager (m\<lparr>m_imports := Some [], m_declarations := None\<rparr>) = Inr builtinTable"
  by (simp add: createNameTable_def)

section \<open>Looking a name up and writing the namespace\<close>

text \<open>
  C5. The claim: \<^verbatim>\<open>resolveName\<close> fails exactly when the name has no entry in the table and
  otherwise returns the namespace of the entry, which the caller writes to the
  \<^verbatim>\<open>TypeIdentifier\<close>. The code tests the truth value of \<^verbatim>\<open>table[name]\<close> on a plain object.
  A name with an entry that is the empty string is reported as not found; such a table is
  what \<^verbatim>\<open>createNameTable\<close> builds for a model whose \<^verbatim>\<open>namespace\<close>, a string without
  constraint in the schema, is empty and which declares the name. A name without an entry
  that \<^verbatim>\<open>Object.prototype\<close> has, such as \<^verbatim>\<open>toString\<close>, is not reported: the inherited
  function is returned, and the case \<^verbatim>\<open>DecoratorTypeReference\<close> writes it to the field
  \<^verbatim>\<open>namespace\<close>. On an ordinary name the code does what the claim says.
\<close>

theorem resolveName_truth_value:
  "resolveName ''Foo'' [''Foo'' \<mapsto> ''''] = Inl (Error ''Name Foo not found'') \<and>
   (case createNameTable modelManager
      \<lparr>m_namespace = '''', m_sourceUri = None, m_concertoVersion = None, m_imports = Some [],
       m_declarations = Some
         [EnumDeclaration \<lparr>ed_name = ''Foo'', ed_decorators = None, ed_location = None, ed_properties = []\<rparr>]\<rparr> of
      Inl e \<Rightarrow> Inl e
    | Inr table \<Rightarrow> resolveName ''Foo'' table) = Inl (Error ''Name Foo not found'') \<and>
   resolveName ''toString'' builtinTable = Inr (JInherited ''toString'') \<and>
   resolveTypeNames
     (NDecoratorLiteral (DecoratorTypeReference None \<lparr>ti_name = ''toString'', ti_namespace = None\<rparr> False))
     builtinTable
   = (NDecoratorLiteral
        (DecoratorTypeReference None
           \<lparr>ti_name = ''toString'', ti_namespace = Some (JInherited ''toString'')\<rparr> False), None) \<and>
   resolveName ''Foo'' [''Foo'' \<mapsto> ''org.acme''] = Inr (JString ''org.acme'') \<and>
   resolveName ''Bar'' [''Foo'' \<mapsto> ''org.acme''] = Inl (Error ''Name Bar not found'')"
  by (simp add: resolveName_def tableGet_def Object_prototype_def builtinTable_apply
        createNameTable_def tableSet_def resolveTypeIdentifier_def)

section \<open>The cases of the switch\<close>

text \<open>
  C2. The claim: decorators are walked on every property kind that carries them. The
  code: the six primitive kinds have no case in the switch, so each is returned as it is
  and its decorators are not walked. On a \<^verbatim>\<open>StringProperty\<close> decorated with
  \<^verbatim>\<open>@link(Foo)\<close>, with \<^verbatim>\<open>Foo\<close> in the table, the reference keeps no namespace; the same
  decorator on an \<^verbatim>\<open>ObjectProperty\<close> is resolved.
\<close>

theorem resolveTypeNames_primitive_property_decorators:
  "resolveTypeNames (NProperty (BooleanProperty b bv)) table = (NProperty (BooleanProperty b bv), None) \<and>
   resolveTypeNames (NProperty (DateTimeProperty b)) table = (NProperty (DateTimeProperty b), None) \<and>
   resolveTypeNames (NProperty (StringProperty b sv sr)) table = (NProperty (StringProperty b sv sr), None) \<and>
   resolveTypeNames (NProperty (DoubleProperty b dv dr)) table = (NProperty (DoubleProperty b dv dr), None) \<and>
   resolveTypeNames (NProperty (IntegerProperty b iv ir)) table = (NProperty (IntegerProperty b iv ir), None) \<and>
   resolveTypeNames (NProperty (LongProperty b lv lr)) table = (NProperty (LongProperty b lv lr), None) \<and>
   resolveTypeNames
     (NProperty (StringProperty
        \<lparr>p_name = ''owner'', p_isArray = False, p_isOptional = False,
         p_decorators = Some [\<lparr>dec_name = ''link'',
            dec_arguments = Some [DecoratorTypeReference None \<lparr>ti_name = ''Foo'', ti_namespace = None\<rparr> False],
            dec_location = None\<rparr>],
         p_location = None\<rparr> None None))
     [''Foo'' \<mapsto> ''org.acme'']
   = (NProperty (StringProperty
        \<lparr>p_name = ''owner'', p_isArray = False, p_isOptional = False,
         p_decorators = Some [\<lparr>dec_name = ''link'',
            dec_arguments = Some [DecoratorTypeReference None \<lparr>ti_name = ''Foo'', ti_namespace = None\<rparr> False],
            dec_location = None\<rparr>],
         p_location = None\<rparr> None None), None) \<and>
   resolveTypeNames
     (NProperty (ObjectProperty
        \<lparr>p_name = ''owner'', p_isArray = False, p_isOptional = False,
         p_decorators = Some [\<lparr>dec_name = ''link'',
            dec_arguments = Some [DecoratorTypeReference None \<lparr>ti_name = ''Foo'', ti_namespace = None\<rparr> False],
            dec_location = None\<rparr>],
         p_location = None\<rparr> None \<lparr>ti_name = ''Foo'', ti_namespace = None\<rparr>))
     [''Foo'' \<mapsto> ''org.acme'']
   = (NProperty (ObjectProperty
        \<lparr>p_name = ''owner'', p_isArray = False, p_isOptional = False,
         p_decorators = Some [\<lparr>dec_name = ''link'',
            dec_arguments = Some [DecoratorTypeReference None \<lparr>ti_name = ''Foo'', ti_namespace = Some (JString ''org.acme'')\<rparr> False],
            dec_location = None\<rparr>],
         p_location = None\<rparr> None \<lparr>ti_name = ''Foo'', ti_namespace = Some (JString ''org.acme'')\<rparr>), None)"
  by (simp add: resolveTypeAndDecorators_def andThen_def forEachIfPresent_def
        resolveTypeNames_Decorator_def resolveTypeIdentifier_def resolveName_def tableGet_def)

lemma visits_Decorator_no_EnumProperty: "NEnumProperty q \<notin> set (visits_Decorator d)"
  by (auto simp: visits_Decorator_def split: option.splits)

lemma visits_decorators_no_EnumProperty: "NEnumProperty q \<notin> set (visits_decorators ds)"
  by (auto simp: visits_decorators_def visits_Decorator_no_EnumProperty split: option.splits)

lemma visits_Property_no_EnumProperty: "NEnumProperty q \<notin> set (visits_Property p)"
  by (cases p) (simp_all add: visits_decorators_no_EnumProperty)

lemma visits_Declaration_no_EnumProperty: "NEnumProperty q \<notin> set (visits_Declaration d)"
  by (cases d)
     (simp_all add: visits_ConceptDeclaration_def visits_decorators_no_EnumProperty
        visits_Property_no_EnumProperty)

text \<open>
  C4. On an \<^verbatim>\<open>EnumDeclaration\<close>, \<^verbatim>\<open>resolveTypeNames\<close> walks the decorators of the
  declaration when the field is present and writes nothing else: the properties are
  afterwards what they were, whether the call returns or throws, and no \<^verbatim>\<open>EnumProperty\<close>
  is among the nodes the call visits.
\<close>

theorem resolveTypeNames_EnumDeclaration_own_decorators:
  "resolveTypeNames (NDeclaration (EnumDeclaration e)) table =
     (NDeclaration (EnumDeclaration
        (e\<lparr>ed_decorators :=
             fst (forEachIfPresent (ed_decorators e) (\<lambda>decorator. resolveTypeNames_Decorator decorator table))\<rparr>)),
      snd (forEachIfPresent (ed_decorators e) (\<lambda>decorator. resolveTypeNames_Decorator decorator table))) \<and>
   ed_properties (fst (resolveTypeNames_EnumDeclaration e table)) = ed_properties e \<and>
   NEnumProperty q \<notin> set (visits (NDeclaration (EnumDeclaration e)))"
  by (simp add: resolveTypeNames_EnumDeclaration_def visits_decorators_no_EnumProperty
        split: prod.splits)

text \<open>
  C10. A direct call of \<^verbatim>\<open>resolveTypeNames\<close> on an \<^verbatim>\<open>EnumProperty\<close> fails with the
  runtime's \<^verbatim>\<open>TypeError\<close> for every such node and every table, and leaves the node as it
  was. No walk that starts at a \<^verbatim>\<open>Model\<close> visits an \<^verbatim>\<open>EnumProperty\<close>.
\<close>

theorem resolveTypeNames_EnumProperty_fails:
  "resolveTypeNames (NEnumProperty p) table = (NEnumProperty p, Some TypeError) \<and>
   NEnumProperty q \<notin> set (visits (NModel m))"
  by (simp add: resolveTypeNames_EnumProperty_def resolveTypeAndDecorators_def
        visits_Declaration_no_EnumProperty split: option.splits)

section \<open>Resolving twice\<close>

lemma resolveTypeIdentifier_idem:
  "resolveTypeIdentifier t table = (t', None) \<Longrightarrow> resolveTypeIdentifier t' table = (t', None)"
  by (auto simp: resolveTypeIdentifier_def split: sum.splits)

lemma forEach_idem:
  assumes "\<And>x x'. x \<in> set xs \<Longrightarrow> f x = (x', None) \<Longrightarrow> f x' = (x', None)"
    and "forEach xs f = (xs', None)"
  shows "forEach xs' f = (xs', None)"
  using assms
proof (induction xs arbitrary: xs')
  case Nil
  then show ?case by simp
next
  case (Cons x xs)
  from Cons.prems(2) obtain x' ys where x': "f x = (x', None)"
    and ys: "forEach xs f = (ys, None)" and e: "xs' = x' # ys"
    by (auto split: prod.splits option.splits)
  from Cons.prems(1) [of x x'] x' have "f x' = (x', None)" by simp
  moreover have "forEach ys f = (ys, None)"
    by (rule Cons.IH [OF _ ys]) (rule Cons.prems(1), simp_all)
  ultimately show ?case using e by simp
qed

lemma forEachIfPresent_idem:
  assumes "\<And>xs x x'. field = Some xs \<Longrightarrow> x \<in> set xs \<Longrightarrow> f x = (x', None) \<Longrightarrow> f x' = (x', None)"
    and "forEachIfPresent field f = (field', None)"
  shows "forEachIfPresent field' f = (field', None)"
proof (cases field)
  case None
  with assms(2) show ?thesis by (simp add: forEachIfPresent_def)
next
  case (Some xs)
  with assms(2) obtain xs' where a: "forEach xs f = (xs', None)" and b: "field' = Some xs'"
    by (auto simp: forEachIfPresent_def split: prod.splits)
  from forEach_idem [OF assms(1) [OF Some] a] have "forEach xs' f = (xs', None)" by simp
  with b show ?thesis by (simp add: forEachIfPresent_def)
qed

lemma resolveTypeNames_DecoratorLiteral_idem:
  "resolveTypeNames_DecoratorLiteral a table = (a', None) \<Longrightarrow>
   resolveTypeNames_DecoratorLiteral a' table = (a', None)"
proof (cases a)
  case (DecoratorTypeReference loc t isArray)
  assume r: "resolveTypeNames_DecoratorLiteral a table = (a', None)"
  then obtain t' where t: "resolveTypeIdentifier t table = (t', None)"
    and a': "a' = DecoratorTypeReference loc t' isArray"
    unfolding DecoratorTypeReference by (auto split: prod.splits)
  from resolveTypeIdentifier_idem [OF t] show ?thesis by (simp add: a')
qed auto

lemma resolveTypeNames_Decorator_idem:
  assumes "resolveTypeNames_Decorator d table = (d', None)"
  shows "resolveTypeNames_Decorator d' table = (d', None)"
proof -
  let ?f = "\<lambda>argument. resolveTypeNames_DecoratorLiteral argument table"
  from assms obtain as where a: "forEachIfPresent (dec_arguments d) ?f = (as, None)"
    and d': "d' = d\<lparr>dec_arguments := as\<rparr>"
    by (auto simp: resolveTypeNames_Decorator_def split: prod.splits)
  have "forEachIfPresent as ?f = (as, None)"
    by (rule forEachIfPresent_idem [OF _ a]) (rule resolveTypeNames_DecoratorLiteral_idem)
  then show ?thesis by (simp add: resolveTypeNames_Decorator_def d')
qed

lemma decorators_idem:
  "forEachIfPresent ds (\<lambda>decorator. resolveTypeNames_Decorator decorator table) = (ds', None) \<Longrightarrow>
   forEachIfPresent ds' (\<lambda>decorator. resolveTypeNames_Decorator decorator table) = (ds', None)"
  by (erule forEachIfPresent_idem [rotated]) (rule resolveTypeNames_Decorator_idem)

lemma resolveTypeAndDecorators_idem:
  assumes "resolveTypeAndDecorators (Some t) ds table = ((ty', ds'), None)"
  shows "\<exists>t'. ty' = Some t' \<and> resolveTypeAndDecorators (Some t') ds' table = ((Some t', ds'), None)"
proof -
  from assms obtain t' where ty': "ty' = Some t'"
    and a: "resolveTypeIdentifier t table = (t', None)"
    and b: "forEachIfPresent ds (\<lambda>decorator. resolveTypeNames_Decorator decorator table) = (ds', None)"
    by (auto simp: resolveTypeAndDecorators_def andThen_def split: prod.splits option.splits)
  from resolveTypeIdentifier_idem [OF a] decorators_idem [OF b]
  have "resolveTypeAndDecorators (Some t') ds' table = ((Some t', ds'), None)"
    by (simp add: resolveTypeAndDecorators_def andThen_def)
  with ty' show ?thesis by simp
qed

lemma resolveTypeNames_Property_idem:
  "resolveTypeNames_Property p table = (p', None) \<Longrightarrow> resolveTypeNames_Property p' table = (p', None)"
proof (cases p)
  case (ObjectProperty b dv t)
  assume r: "resolveTypeNames_Property p table = (p', None)"
  then obtain ty' ds' where a: "resolveTypeAndDecorators (Some t) (p_decorators b) table = ((ty', ds'), None)"
    and p': "p' = ObjectProperty (b\<lparr>p_decorators := ds'\<rparr>) dv (case ty' of Some t' \<Rightarrow> t' | None \<Rightarrow> t)"
    unfolding ObjectProperty by (auto split: prod.splits)
  from resolveTypeAndDecorators_idem [OF a] obtain t' where "ty' = Some t'"
    and "resolveTypeAndDecorators (Some t') ds' table = ((Some t', ds'), None)" by blast
  then show ?thesis by (simp add: p')
next
  case (RelationshipProperty b t)
  assume r: "resolveTypeNames_Property p table = (p', None)"
  then obtain ty' ds' where a: "resolveTypeAndDecorators (Some t) (p_decorators b) table = ((ty', ds'), None)"
    and p': "p' = RelationshipProperty (b\<lparr>p_decorators := ds'\<rparr>) (case ty' of Some t' \<Rightarrow> t' | None \<Rightarrow> t)"
    unfolding RelationshipProperty by (auto split: prod.splits)
  from resolveTypeAndDecorators_idem [OF a] obtain t' where "ty' = Some t'"
    and "resolveTypeAndDecorators (Some t') ds' table = ((Some t', ds'), None)" by blast
  then show ?thesis by (simp add: p')
qed auto

lemma andThen_NoneD:
  "andThen sr f = (s', None) \<Longrightarrow> \<exists>s. sr = (s, None) \<and> f s = (s', None)"
  by (cases sr) (auto simp: andThen_def split: option.splits)

lemma andThen_None: "andThen (s, None) f = f s"
  by (simp add: andThen_def)

lemma resolveTypeNames_ConceptDeclaration_idem:
  assumes "resolveTypeNames_ConceptDeclaration c table = (c', None)"
  shows "resolveTypeNames_ConceptDeclaration c' table = (c', None)"
proof -
  let ?fp = "\<lambda>property. resolveTypeNames_Property property table"
  let ?fd = "\<lambda>decorator. resolveTypeNames_Decorator decorator table"
  let ?s1 = "\<lambda>c. case cd_superType c of
          None \<Rightarrow> (c, None)
        | Some superType \<Rightarrow>
            (case resolveTypeIdentifier superType table of
               (superType', r) \<Rightarrow> (c\<lparr>cd_superType := Some superType'\<rparr>, r))"
  let ?s2 = "\<lambda>c. case forEach (cd_properties c) ?fp of (ps', r) \<Rightarrow> (c\<lparr>cd_properties := ps'\<rparr>, r)"
  let ?s3 = "\<lambda>c. case forEachIfPresent (cd_decorators c) ?fd of (ds', r) \<Rightarrow> (c\<lparr>cd_decorators := ds'\<rparr>, r)"
  have unf: "resolveTypeNames_ConceptDeclaration x table = andThen (andThen (?s1 x) ?s2) ?s3" for x
    by (simp add: resolveTypeNames_ConceptDeclaration_def)
  from andThen_NoneD [OF assms [unfolded unf]]
  obtain c2 where a: "andThen (?s1 c) ?s2 = (c2, None)" and 3: "?s3 c2 = (c', None)" by blast
  from andThen_NoneD [OF a]
  obtain c1 where 1: "?s1 c = (c1, None)" and 2: "?s2 c1 = (c2, None)" by blast
  from 2 obtain ps where ps: "forEach (cd_properties c1) ?fp = (ps, None)"
    and c2: "c2 = c1\<lparr>cd_properties := ps\<rparr>"
    by (cases "forEach (cd_properties c1) ?fp") auto
  from 3 obtain ds where ds: "forEachIfPresent (cd_decorators c2) ?fd = (ds, None)"
    and c': "c' = c2\<lparr>cd_decorators := ds\<rparr>"
    by (cases "forEachIfPresent (cd_decorators c2) ?fd") auto
  have "?s1 c' = (c', None)"
  proof (cases "cd_superType c")
    case None
    with 1 have "c1 = c" by simp
    with None show ?thesis by (simp add: c' c2)
  next
    case (Some t)
    obtain t' r where t: "resolveTypeIdentifier t table = (t', r)"
      by (cases "resolveTypeIdentifier t table")
    with 1 Some have r: "r = None" and c1: "c1 = c\<lparr>cd_superType := Some t'\<rparr>" by simp_all
    from resolveTypeIdentifier_idem [OF t [unfolded r]] show ?thesis by (simp add: c' c2 c1)
  qed
  moreover have "forEach ps ?fp = (ps, None)"
    by (rule forEach_idem [OF _ ps]) (rule resolveTypeNames_Property_idem)
  then have "?s2 c' = (c', None)" by (simp add: c' c2)
  moreover have "forEachIfPresent ds ?fd = (ds, None)"
    by (rule decorators_idem [OF ds])
  then have "?s3 c' = (c', None)" by (simp add: c')
  ultimately show ?thesis by (simp add: unf andThen_None)
qed

lemma resolveTypeNames_EnumDeclaration_idem:
  assumes "resolveTypeNames_EnumDeclaration e table = (e', None)"
  shows "resolveTypeNames_EnumDeclaration e' table = (e', None)"
proof -
  from assms obtain ds where a: "forEachIfPresent (ed_decorators e)
        (\<lambda>decorator. resolveTypeNames_Decorator decorator table) = (ds, None)"
    and e': "e' = e\<lparr>ed_decorators := ds\<rparr>"
    by (auto simp: resolveTypeNames_EnumDeclaration_def split: prod.splits)
  from decorators_idem [OF a] show ?thesis
    by (simp add: resolveTypeNames_EnumDeclaration_def e')
qed

lemma resolveTypeNames_Declaration_idem:
  "resolveTypeNames_Declaration d table = (d', None) \<Longrightarrow>
   resolveTypeNames_Declaration d' table = (d', None)"
proof -
  assume r: "resolveTypeNames_Declaration d table = (d', None)"
  have c: "resolveTypeNames_ConceptDeclaration c table = (c', None) \<Longrightarrow>
      (case resolveTypeNames_ConceptDeclaration c' table of (x, r) \<Rightarrow> (k x, r)) = (k c', None)"
    for c c' and k :: "conceptDeclaration \<Rightarrow> declarationNode"
    by (simp add: resolveTypeNames_ConceptDeclaration_idem)
  have e: "resolveTypeNames_EnumDeclaration e table = (e', None) \<Longrightarrow>
      (case resolveTypeNames_EnumDeclaration e' table of (x, r) \<Rightarrow> (EnumDeclaration x, r))
        = (EnumDeclaration e', None)" for e e'
    by (simp add: resolveTypeNames_EnumDeclaration_idem)
  from r show ?thesis
    by (cases d) (auto split: prod.splits simp: c e)
qed

lemma resolveTypeNames_Model_idem:
  assumes "resolveTypeNames_Model m table = (m', None)"
  shows "resolveTypeNames_Model m' table = (m', None)"
proof -
  let ?f = "\<lambda>decl. resolveTypeNames_Declaration decl table"
  from assms obtain ds where a: "forEachIfPresent (m_declarations m) ?f = (ds, None)"
    and m': "m' = m\<lparr>m_declarations := ds\<rparr>"
    by (auto simp: resolveTypeNames_Model_def split: prod.splits)
  have "forEachIfPresent ds ?f = (ds, None)"
    by (rule forEachIfPresent_idem [OF _ a]) (rule resolveTypeNames_Declaration_idem)
  then show ?thesis by (simp add: resolveTypeNames_Model_def m')
qed

text \<open>
  C8. For a fixed table, when \<^verbatim>\<open>resolveTypeNames\<close> has returned on a node and left it as
  \<open>n'\<close>, the call on \<open>n'\<close> with the same table returns as well and leaves \<open>n'\<close> as it is.
\<close>

theorem resolveTypeNames_idempotent:
  "resolveTypeNames n table = (n', None) \<Longrightarrow> resolveTypeNames n' table = (n', None)"
proof (cases n)
  case (NModel m)
  assume "resolveTypeNames n table = (n', None)"
  then obtain m' where "resolveTypeNames_Model m table = (m', None)" and "n' = NModel m'"
    unfolding NModel by (auto split: prod.splits)
  then show ?thesis by (simp add: resolveTypeNames_Model_idem)
next
  case (NDeclaration d)
  assume "resolveTypeNames n table = (n', None)"
  then obtain d' where "resolveTypeNames_Declaration d table = (d', None)" and "n' = NDeclaration d'"
    unfolding NDeclaration by (auto split: prod.splits)
  then show ?thesis by (simp add: resolveTypeNames_Declaration_idem)
next
  case (NEnumProperty p)
  assume "resolveTypeNames n table = (n', None)"
  then show ?thesis unfolding NEnumProperty
    by (simp add: resolveTypeNames_EnumProperty_def resolveTypeAndDecorators_def)
next
  case (NProperty p)
  assume "resolveTypeNames n table = (n', None)"
  then obtain p' where "resolveTypeNames_Property p table = (p', None)" and "n' = NProperty p'"
    unfolding NProperty by (auto split: prod.splits)
  then show ?thesis by (simp add: resolveTypeNames_Property_idem)
next
  case (NDecorator d)
  assume "resolveTypeNames n table = (n', None)"
  then obtain d' where "resolveTypeNames_Decorator d table = (d', None)" and "n' = NDecorator d'"
    unfolding NDecorator by (auto split: prod.splits)
  then show ?thesis by (simp add: resolveTypeNames_Decorator_idem)
next
  case (NDecoratorLiteral a)
  assume "resolveTypeNames n table = (n', None)"
  then obtain a' where "resolveTypeNames_DecoratorLiteral a table = (a', None)" and "n' = NDecoratorLiteral a'"
    unfolding NDecoratorLiteral by (auto split: prod.splits)
  then show ?thesis by (simp add: resolveTypeNames_DecoratorLiteral_idem)
qed auto

lemmas eval_defs =
  resolveTypeNames_Model_def forEachIfPresent_def resolveTypeNames_ConceptDeclaration_def
  andThen_def resolveTypeIdentifier_def resolveName_def tableGet_def
  resolveTypeNames_Decorator_def resolveTypeAndDecorators_def

text \<open>
  A model with one concept that extends \<^verbatim>\<open>Concept\<close> and refers to itself: the first call
  fills in both namespaces, the second changes nothing.
\<close>

theorem resolveTypeNames_idempotent_witness:
  "resolveTypeNames
     (NModel \<lparr>m_namespace = ''org.acme'', m_sourceUri = None, m_concertoVersion = None,
        m_imports = Some [],
        m_declarations = Some [ConceptDeclaration
          \<lparr>cd_name = ''Person'', cd_decorators = None, cd_location = None, cd_isAbstract = False,
           cd_identified = None, cd_superType = Some \<lparr>ti_name = ''Concept'', ti_namespace = None\<rparr>,
           cd_properties = [ObjectProperty
             \<lparr>p_name = ''friend'', p_isArray = False, p_isOptional = True, p_decorators = None,
              p_location = None\<rparr> None \<lparr>ti_name = ''Person'', ti_namespace = None\<rparr>]\<rparr>]\<rparr>)
     [''Concept'' \<mapsto> ''concerto'', ''Person'' \<mapsto> ''org.acme'']
   = (NModel \<lparr>m_namespace = ''org.acme'', m_sourceUri = None, m_concertoVersion = None,
        m_imports = Some [],
        m_declarations = Some [ConceptDeclaration
          \<lparr>cd_name = ''Person'', cd_decorators = None, cd_location = None, cd_isAbstract = False,
           cd_identified = None, cd_superType = Some \<lparr>ti_name = ''Concept'', ti_namespace = Some (JString ''concerto'')\<rparr>,
           cd_properties = [ObjectProperty
             \<lparr>p_name = ''friend'', p_isArray = False, p_isOptional = True, p_decorators = None,
              p_location = None\<rparr> None \<lparr>ti_name = ''Person'', ti_namespace = Some (JString ''org.acme'')\<rparr>]\<rparr>]\<rparr>, None) \<and>
   resolveTypeNames
     (NModel \<lparr>m_namespace = ''org.acme'', m_sourceUri = None, m_concertoVersion = None,
        m_imports = Some [],
        m_declarations = Some [ConceptDeclaration
          \<lparr>cd_name = ''Person'', cd_decorators = None, cd_location = None, cd_isAbstract = False,
           cd_identified = None, cd_superType = Some \<lparr>ti_name = ''Concept'', ti_namespace = Some (JString ''concerto'')\<rparr>,
           cd_properties = [ObjectProperty
             \<lparr>p_name = ''friend'', p_isArray = False, p_isOptional = True, p_decorators = None,
              p_location = None\<rparr> None \<lparr>ti_name = ''Person'', ti_namespace = Some (JString ''org.acme'')\<rparr>]\<rparr>]\<rparr>)
     [''Concept'' \<mapsto> ''concerto'', ''Person'' \<mapsto> ''org.acme'']
   = (NModel \<lparr>m_namespace = ''org.acme'', m_sourceUri = None, m_concertoVersion = None,
        m_imports = Some [],
        m_declarations = Some [ConceptDeclaration
          \<lparr>cd_name = ''Person'', cd_decorators = None, cd_location = None, cd_isAbstract = False,
           cd_identified = None, cd_superType = Some \<lparr>ti_name = ''Concept'', ti_namespace = Some (JString ''concerto'')\<rparr>,
           cd_properties = [ObjectProperty
             \<lparr>p_name = ''friend'', p_isArray = False, p_isOptional = True, p_decorators = None,
              p_location = None\<rparr> None \<lparr>ti_name = ''Person'', ti_namespace = Some (JString ''org.acme'')\<rparr>]\<rparr>]\<rparr>, None)"
  (is "?a = (?n', None) \<and> ?b = (?n', None)")
proof -
  have a: "?a = (?n', None)" by (simp add: eval_defs)
  from a resolveTypeNames_idempotent [OF a] show ?thesis by (rule conjI)
qed

section \<open>The caller's object\<close>

lemma resolveMetaModel_no_validate:
  assumes "metaModel < length h"
  shows "resolveMetaModel serializer modelManager h metaModel False =
     (case createNameTable modelManager (h ! metaModel) of
        Inl e \<Rightarrow> (h @ [jsonRoundTrip (h ! metaModel)], Inl e)
      | Inr nameTable \<Rightarrow>
          (h @ [fst (resolveTypeNames_Model (jsonRoundTrip (h ! metaModel)) nameTable)],
           case snd (resolveTypeNames_Model (jsonRoundTrip (h ! metaModel)) nameTable) of
             Some e \<Rightarrow> Inl e | None \<Rightarrow> Inr (length h)))"
  using assms
  by (simp add: resolveMetaModel_def alloc_def nth_append split: sum.splits prod.splits)

lemma resolveMetaModel_validate:
  "resolveMetaModel serializer modelManager h metaModel True =
     (case serializer (h ! metaModel) of
        Inl e \<Rightarrow> (h, Inl e)
      | Inr mm \<Rightarrow>
          (case createNameTable modelManager mm of
             Inl e \<Rightarrow> (h @ [mm, jsonRoundTrip mm], Inl e)
           | Inr nameTable \<Rightarrow>
               (h @ [mm, fst (resolveTypeNames_Model (jsonRoundTrip mm) nameTable)],
                case snd (resolveTypeNames_Model (jsonRoundTrip mm) nameTable) of
                  Some e \<Rightarrow> Inl e | None \<Rightarrow> Inr (Suc (length h)))))"
  by (simp add: resolveMetaModel_def validateMetaModel_def alloc_def nth_append
           list_update_append split: sum.splits prod.splits)

text \<open>
  C7. Whatever the validator, the registry and the flag \<^verbatim>\<open>validate\<close>, and whether the call
  returns or throws, \<^verbatim>\<open>resolveMetaModel\<close> leaves every object that existed before the
  call, the argument among them, as it was. When it returns, the result is an object
  made during the call, other than the argument, and holds the copy of the working model
  (the argument, or the validator's output when \<^verbatim>\<open>validate\<close> holds) resolved with the name
  table of the working model. The copy is what the round trip through JSON text makes of
  the working model, which for a tree of the schema is the same tree.
\<close>

theorem resolveMetaModel_leaves_argument:
  assumes "metaModel < length h"
    and "resolveMetaModel serializer modelManager h metaModel validate = (h', r)"
  shows "(\<forall>a < length h. h' ! a = h ! a) \<and>
         h' ! metaModel = h ! metaModel \<and>
         (\<forall>result. r = Inr result \<longrightarrow>
            length h \<le> result \<and> result < length h' \<and> result \<noteq> metaModel \<and>
            (\<exists>mm nameTable.
               (if validate then serializer (h ! metaModel) = Inr mm else mm = h ! metaModel) \<and>
               createNameTable modelManager mm = Inr nameTable \<and>
               resolveTypeNames_Model (jsonRoundTrip mm) nameTable = (h' ! result, None)))"
proof (cases validate)
  case False
  show ?thesis
  proof (cases "createNameTable modelManager (h ! metaModel)")
    case (Inl e)
    with assms False show ?thesis
      by (auto simp: resolveMetaModel_no_validate nth_append)
  next
    case (Inr nameTable)
    obtain m' r' where m: "resolveTypeNames_Model (jsonRoundTrip (h ! metaModel)) nameTable = (m', r')"
      by (cases "resolveTypeNames_Model (jsonRoundTrip (h ! metaModel)) nameTable")
    with assms False Inr have h': "h' = h @ [m']"
      and r: "r = (case r' of Some e \<Rightarrow> Inl e | None \<Rightarrow> Inr (length h))"
      by (simp_all add: resolveMetaModel_no_validate)
    from assms(1) False Inr m show ?thesis
      by (auto simp: h' r nth_append split: option.splits)
  qed
next
  case True
  show ?thesis
  proof (cases "serializer (h ! metaModel)")
    case (Inl e)
    with assms True show ?thesis by (auto simp: resolveMetaModel_validate)
  next
    case mm: (Inr mm)
    show ?thesis
    proof (cases "createNameTable modelManager mm")
      case (Inl e)
      with assms True mm show ?thesis
        by (auto simp: resolveMetaModel_validate nth_append)
    next
      case (Inr nameTable)
      obtain m' r' where m: "resolveTypeNames_Model (jsonRoundTrip mm) nameTable = (m', r')"
        by (cases "resolveTypeNames_Model (jsonRoundTrip mm) nameTable")
      with assms True mm Inr have h': "h' = h @ [mm, m']"
        and r: "r = (case r' of Some e \<Rightarrow> Inl e | None \<Rightarrow> Inr (Suc (length h)))"
        by (simp_all add: resolveMetaModel_validate)
      from assms(1) True mm Inr m show ?thesis
        by (auto simp: h' r nth_append split: option.splits)
    qed
  qed
qed

text \<open>
  A store that holds one model, resolved without validation: the argument at reference
  \<open>0\<close> is unchanged and the result, at the new reference \<open>1\<close>, carries the namespace.
\<close>

theorem resolveMetaModel_leaves_argument_witness:
  "(0::nat) < length
     [\<lparr>m_namespace = ''org.acme'', m_sourceUri = None, m_concertoVersion = None,
        m_imports = Some [],
        m_declarations = Some [ConceptDeclaration
          \<lparr>cd_name = ''Person'', cd_decorators = None, cd_location = None, cd_isAbstract = False,
           cd_identified = None, cd_superType = Some \<lparr>ti_name = ''Concept'', ti_namespace = None\<rparr>,
           cd_properties = []\<rparr>]\<rparr>] \<and>
   resolveMetaModel Inr \<lparr>getModelFile = (\<lambda>ns. \<lparr>getLocalType = (\<lambda>n. False), getAllDeclarations = []\<rparr>)\<rparr>
     [\<lparr>m_namespace = ''org.acme'', m_sourceUri = None, m_concertoVersion = None,
        m_imports = Some [],
        m_declarations = Some [ConceptDeclaration
          \<lparr>cd_name = ''Person'', cd_decorators = None, cd_location = None, cd_isAbstract = False,
           cd_identified = None, cd_superType = Some \<lparr>ti_name = ''Concept'', ti_namespace = None\<rparr>,
           cd_properties = []\<rparr>]\<rparr>] 0 False
   = ([\<lparr>m_namespace = ''org.acme'', m_sourceUri = None, m_concertoVersion = None,
        m_imports = Some [],
        m_declarations = Some [ConceptDeclaration
          \<lparr>cd_name = ''Person'', cd_decorators = None, cd_location = None, cd_isAbstract = False,
           cd_identified = None, cd_superType = Some \<lparr>ti_name = ''Concept'', ti_namespace = None\<rparr>,
           cd_properties = []\<rparr>]\<rparr>,
       \<lparr>m_namespace = ''org.acme'', m_sourceUri = None, m_concertoVersion = None,
        m_imports = Some [],
        m_declarations = Some [ConceptDeclaration
          \<lparr>cd_name = ''Person'', cd_decorators = None, cd_location = None, cd_isAbstract = False,
           cd_identified = None, cd_superType = Some \<lparr>ti_name = ''Concept'', ti_namespace = Some (JString ''concerto'')\<rparr>,
           cd_properties = []\<rparr>]\<rparr>], Inr 1)"
  (is "0 < length ?h \<and> ?call = (?h', Inr 1)")
proof -
  have l: "0 < length ?h" by simp
  have e: "?call = (?h', Inr 1)"
    by (simp add: resolveMetaModel_def alloc_def createNameTable_def builtinTable_def eval_defs
          jsonRoundTrip_def jsonRoundTrip_ConceptDeclaration_def jsonRoundTrip_decorators_def
          jsonRoundTrip_TypeIdentifier_def jsonRoundTrip_namespace_def tableSet_def
          Object_prototype_def)
  from resolveMetaModel_leaves_argument [OF l e] have "?h' ! 0 = ?h ! 0" by blast
  with l e show ?thesis by simp
qed

end
